theory Spec2Isabelle
  imports Complex_Main "HOL-Library.AList"
begin

section \<open>The cash-book view of the motel manager (src/pages/Cashbook.tsx, src/lib/payments.ts)\<close>

text \<open>
  The view is a React function component. Its \<open>useState\<close> cells are the fields of the
  record \<open>view\<close>; an event handler is a function from the view to the updated view. Calls
  to the hosted store are calls to functions of the record \<open>env\<close>, and every call that
  is issued is appended to a log of requests, so that "no entry is created" and "no query
  is issued" are statements about this log.

  Conventions of the embedding:
  \<^item> a ledger amount is a whole number of dong (\<open>int\<close>); the source adds JavaScript
    numbers, which is exact on integers below \<open>2 ^ 53\<close>;
  \<^item> \<open>number | null\<close> and \<open>string | null\<close> are \<open>option\<close> types;
  \<^item> an ISO timestamp string is represented by the instant it denotes, in milliseconds
    since the epoch (\<open>int\<close>);
  \<^item> the Vietnamese message texts are written without their diacritics.
\<close>

subsection \<open>Data model\<close>

datatype PaymentType = INCOME | EXPENSE

datatype PaymentMethod = CASH | TRANSFER | CARD

datatype FilterMode = TODAY | D7 | D30 | RANGE

datatype MsgType = error | success | info

text \<open>
  The projection \<open>select("type,amount")\<close> of a payment, typed
  \<open>{ type: PaymentType; amount: number | null }\<close> in \<open>refreshAll\<close>.
\<close>

record TypeAmount =
  type :: PaymentType
  amount :: "int option"

text \<open>\<open>PaymentRow\<close>: the projection shown in the list. It extends the one above.\<close>

record PaymentRow = TypeAmount +
  id_row :: string
  method_row :: PaymentMethod
  note_row :: "string option"
  paid_at :: int
  stay_id :: "string option"
  room_id :: "string option"

record RoomLite =
  id_room :: string
  name :: string

text \<open>The operator \<open>a ?? b\<close> of the source.\<close>

definition nullish :: "'a option \<Rightarrow> 'a \<Rightarrow> 'a" where
  "nullish a b = (case a of None \<Rightarrow> b | Some v \<Rightarrow> v)"

text \<open>\<open>Number(x)\<close> applied to a value that is a number already.\<close>

definition Number_num :: "int \<Rightarrow> int" where
  "Number_num x = x"

record Totals =
  income :: int
  expense :: int
  profit :: int

text \<open>
  \<open>rangeTotals\<close> (a \<open>useMemo\<close> over \<open>rows\<close>); \<open>xs.reduce(f, 0)\<close> is \<open>foldl f 0 xs\<close>.
\<close>

definition rangeTotals :: "PaymentRow list \<Rightarrow> Totals" where
  "rangeTotals rows =
     (let income = foldl (\<lambda>s r. s + Number_num (nullish (amount r) 0)) 0
                     (filter (\<lambda>r. type r = INCOME) rows);
          expense = foldl (\<lambda>s r. s + Number_num (nullish (amount r) 0)) 0
                     (filter (\<lambda>r. type r = EXPENSE) rows)
      in \<lparr>income = income, expense = expense, profit = income - expense\<rparr>)"

subsection \<open>The state of the view\<close>

record view =
  loading :: bool
  msg :: string
  msgType :: MsgType
  propertyId :: "string option"
  selectedDate :: string
  filterMode :: FilterMode
  rangeFrom :: string
  rangeTo :: string
  rooms :: "RoomLite list"
  roomNameById :: "(string \<times> string) list"
  rows :: "PaymentRow list"
  dayIncome :: int
  dayExpense :: int
  monthIncome :: int
  monthExpense :: int
  expAmount :: string
  expMethod :: PaymentMethod
  expNote :: string
  expDate :: string
  expRoomId :: string
  submittingExpense :: bool

definition setToast :: "MsgType \<Rightarrow> string \<Rightarrow> view \<Rightarrow> view" where
  "setToast ty text s = s\<lparr>msgType := ty, msg := text\<rparr>"

definition dayProfit :: "view \<Rightarrow> int" where
  "dayProfit s = dayIncome s - dayExpense s"

definition monthProfit :: "view \<Rightarrow> int" where
  "monthProfit s = monthIncome s - monthExpense s"

subsection \<open>The date and filter controls\<close>



text \<open>\<open>onChange\<close> of the two range inputs, which are rendered in mode \<open>RANGE\<close> only.\<close>

definition onChangeRangeFrom :: "string \<Rightarrow> view \<Rightarrow> view" where
  "onChangeRangeFrom v s = s\<lparr>rangeFrom := v\<rparr>"

definition onChangeRangeTo :: "string \<Rightarrow> view \<Rightarrow> view" where
  "onChangeRangeTo v s = s\<lparr>rangeTo := v\<rparr>"






subsection \<open>JavaScript dates\<close>

text \<open>
  The source computes its windows with the \<open>Date\<close> object of the JavaScript runtime. The
  functions below follow the definitions of ECMA-262 (section "Date Objects") under their
  names there. A time value is a number of milliseconds since the epoch, in UTC; \<open>NaN\<close>,
  the time value of an invalid date, is \<open>None\<close>. The local time zone is a fixed offset
  \<open>tza\<close> from UTC, in milliseconds (Viet Nam: seven hours); a zone with daylight-saving
  changes is outside the model.

  \<open>YearFromTime t\<close> is, in ECMA-262, the largest \<open>y\<close> with
  \<open>TimeFromYear y \<le> t\<close>. The definition here computes it from an estimate that is off by
  one at most; lemma \<open>YearFromTime_bounds\<close> shows that it is that year.
  \<open>MakeDay\<close> is given there by the time value whose year, month and date are
  \<open>ym\<close>, \<open>mn\<close>, 1; lemma \<open>civil_round_trip\<close> shows that the day computed here is that
  one.
\<close>

definition msPerDay :: int where "msPerDay = 86400000"
definition msPerHour :: int where "msPerHour = 3600000"
definition msPerMinute :: int where "msPerMinute = 60000"
definition msPerSecond :: int where "msPerSecond = 1000"

definition Day :: "int \<Rightarrow> int" where "Day t = t div msPerDay"
definition TimeWithinDay :: "int \<Rightarrow> int" where "TimeWithinDay t = t mod msPerDay"

definition DaysInYear :: "int \<Rightarrow> int" where
  "DaysInYear y = (if y mod 4 \<noteq> 0 then 365 else if y mod 100 \<noteq> 0 then 366
                   else if y mod 400 \<noteq> 0 then 365 else 366)"

definition DayFromYear :: "int \<Rightarrow> int" where
  "DayFromYear y = 365 * (y - 1970) + (y - 1969) div 4 - (y - 1901) div 100 + (y - 1601) div 400"

definition TimeFromYear :: "int \<Rightarrow> int" where
  "TimeFromYear y = msPerDay * DayFromYear y"

definition YearFromTime :: "int \<Rightarrow> int" where
  "YearFromTime t =
     (let d = Day t; y = 1970 + (400 * d) div 146097
      in if DayFromYear (y + 1) \<le> d then y + 1
         else if DayFromYear y \<le> d then y else y - 1)"


definition InLeapYear :: "int \<Rightarrow> int" where
  "InLeapYear t = (if DaysInYear (YearFromTime t) = 366 then 1 else 0)"

definition DayWithinYear :: "int \<Rightarrow> int" where
  "DayWithinYear t = Day t - DayFromYear (YearFromTime t)"

definition MonthFromTime :: "int \<Rightarrow> int" where
  "MonthFromTime t =
     (let d = DayWithinYear t; l = InLeapYear t
      in if d < 31 then 0
         else if d < 59 + l then 1
         else if d < 90 + l then 2
         else if d < 120 + l then 3
         else if d < 151 + l then 4
         else if d < 181 + l then 5
         else if d < 212 + l then 6
         else if d < 243 + l then 7
         else if d < 273 + l then 8
         else if d < 304 + l then 9
         else if d < 334 + l then 10
         else 11)"

definition DateFromTime :: "int \<Rightarrow> int" where
  "DateFromTime t =
     (let d = DayWithinYear t; l = InLeapYear t; m = MonthFromTime t
      in if m = 0 then d + 1
         else if m = 1 then d - 30
         else if m = 2 then d - 58 - l
         else if m = 3 then d - 89 - l
         else if m = 4 then d - 119 - l
         else if m = 5 then d - 150 - l
         else if m = 6 then d - 180 - l
         else if m = 7 then d - 211 - l
         else if m = 8 then d - 242 - l
         else if m = 9 then d - 272 - l
         else if m = 10 then d - 303 - l
         else d - 333 - l)"

definition MakeTime :: "int \<Rightarrow> int \<Rightarrow> int \<Rightarrow> int \<Rightarrow> int" where
  "MakeTime hour minute sec ms =
     hour * msPerHour + minute * msPerMinute + sec * msPerSecond + ms"

definition DaysBeforeMonth :: "int \<Rightarrow> int \<Rightarrow> int" where
  "DaysBeforeMonth ym mn =
     (let l = (if DaysInYear ym = 366 then 1 else 0)
      in if mn = 0 then 0
         else if mn = 1 then 31
         else if mn = 2 then 59 + l
         else if mn = 3 then 90 + l
         else if mn = 4 then 120 + l
         else if mn = 5 then 151 + l
         else if mn = 6 then 181 + l
         else if mn = 7 then 212 + l
         else if mn = 8 then 243 + l
         else if mn = 9 then 273 + l
         else if mn = 10 then 304 + l
         else 334 + l)"

definition MakeDay :: "int \<Rightarrow> int \<Rightarrow> int \<Rightarrow> int" where
  "MakeDay year month date =
     (let ym = year + month div 12; mn = month mod 12
      in DayFromYear ym + DaysBeforeMonth ym mn + date - 1)"

definition MakeDate :: "int \<Rightarrow> int \<Rightarrow> int" where
  "MakeDate day time = day * msPerDay + time"

definition TimeClip :: "int \<Rightarrow> int option" where
  "TimeClip t = (if \<bar>t\<bar> > 8640000000000000 then None else Some t)"

definition DaysInMonth :: "int \<Rightarrow> int \<Rightarrow> int" where
  "DaysInMonth y m =
     (if m = 2 then (if DaysInYear y = 366 then 29 else 28)
      else if m = 4 \<or> m = 6 \<or> m = 9 \<or> m = 11 then 30 else 31)"

type_synonym Date = "int option"

text \<open>
  What a \<open>throw\<close> carries: an instance of \<open>Error\<close> with its message, or another object
  (the store's client reports a failed query as an object with a message; whether that
  object is an instance of \<open>Error\<close> depends on the version of the client).
\<close>

datatype thrown = ErrorObject string | OtherObject string

definition digit :: "char \<Rightarrow> int option" where
  "digit c = (let n = (of_char c :: nat)
              in if 48 \<le> n \<and> n \<le> 57 then Some (int n - 48) else None)"

fun digits_from :: "int \<Rightarrow> string \<Rightarrow> int option" where
  "digits_from acc [] = Some acc"
| "digits_from acc (c # cs) =
     (case digit c of None \<Rightarrow> None | Some d \<Rightarrow> digits_from (10 * acc + d) cs)"

text \<open>The value of a non-empty string of decimal digits.\<close>

definition digits :: "string \<Rightarrow> int option" where
  "digits cs = (if cs = [] then None else digits_from 0 cs)"

text \<open>
  The date part \<open>YYYY-MM-DD\<close> of the ECMA-262 date-time string format; an element out of
  its range (month 13, 30 February) makes the string unrecognised.
\<close>

definition parse_ymd :: "string \<Rightarrow> (int \<times> int \<times> int) option" where
  "parse_ymd s =
     (if length s = 10 \<and> s ! 4 = CHR ''-'' \<and> s ! 7 = CHR ''-'' then
        (case (digits (take 4 s), digits (take 2 (drop 5 s)), digits (drop 8 s)) of
           (Some y, Some m, Some d) \<Rightarrow>
             if 1 \<le> m \<and> m \<le> 12 \<and> 1 \<le> d \<and> d \<le> DaysInMonth y m then Some (y, m, d)
             else None
         | _ \<Rightarrow> None)
      else None)"

text \<open>The time part \<open>HH:mm:ss\<close> or \<open>HH:mm:ss.sss\<close>, as milliseconds within the day.\<close>

definition parse_hms :: "string \<Rightarrow> int option" where
  "parse_hms s =
     (if (length s = 8 \<or> (length s = 12 \<and> s ! 8 = CHR ''.'')) \<and>
         s ! 2 = CHR '':'' \<and> s ! 5 = CHR '':'' then
        (case (digits (take 2 s), digits (take 2 (drop 3 s)), digits (take 2 (drop 6 s)),
               if length s = 8 then Some 0 else digits (drop 9 s)) of
           (Some h, Some mi, Some sec, Some ms) \<Rightarrow>
             if h \<le> 23 \<and> mi \<le> 59 \<and> sec \<le> 59 then Some (MakeTime h mi sec ms) else None
         | _ \<Rightarrow> None)
      else None)"

text \<open>
  \<open>new Date(s)\<close> for a string \<open>s\<close> of the form \<open>YYYY-MM-DDTHH:mm:ss\<close> with an optional
  \<open>.sss\<close>, which is read as local time. These are the only strings the source builds
  from a well-formed date; any other string gives an invalid date here (the hour
  \<open>24:00:00\<close> and the fallback formats of a particular browser are not modelled).
\<close>

definition new_Date_string :: "int \<Rightarrow> string \<Rightarrow> Date" where
  "new_Date_string tz s =
     (if 10 < length s \<and> s ! 10 = CHR ''T'' then
        (case (parse_ymd (take 10 s), parse_hms (drop 11 s)) of
           (Some (y, m, d), Some tm) \<Rightarrow> TimeClip (MakeDate (MakeDay y (m - 1) d) tm - tz)
         | _ \<Rightarrow> None)
      else None)"

text \<open>
  \<open>new Date(year, month, date, hours, minutes, seconds, ms)\<close>, in local time. A year from
  0 to 99 stands for 1900 to 1999. \<open>year\<close> and \<open>month\<close> come from getters, which give
  \<open>NaN\<close> on an invalid date.
\<close>

definition new_Date_fields ::
  "int \<Rightarrow> int option \<Rightarrow> int option \<Rightarrow> int \<Rightarrow> int \<Rightarrow> int \<Rightarrow> int \<Rightarrow> int \<Rightarrow> Date" where
  "new_Date_fields tz year month date hours minutes seconds ms =
     (case (year, month) of
        (Some y, Some m) \<Rightarrow>
          (let yr = (if 0 \<le> y \<and> y \<le> 99 then 1900 + y else y);
               finalDate = MakeDate (MakeDay yr m date) (MakeTime hours minutes seconds ms)
           in TimeClip (finalDate - tz))
      | _ \<Rightarrow> None)"

definition getFullYear :: "int \<Rightarrow> Date \<Rightarrow> int option" where
  "getFullYear tz d = map_option (\<lambda>t. YearFromTime (t + tz)) d"

definition getMonth :: "int \<Rightarrow> Date \<Rightarrow> int option" where
  "getMonth tz d = map_option (\<lambda>t. MonthFromTime (t + tz)) d"

definition getDate :: "int \<Rightarrow> Date \<Rightarrow> int option" where
  "getDate tz d = map_option (\<lambda>t. DateFromTime (t + tz)) d"

definition setDate :: "int \<Rightarrow> int option \<Rightarrow> Date \<Rightarrow> Date" where
  "setDate tz dt d =
     (case (d, dt) of
        (Some t, Some v) \<Rightarrow>
          (let tl = t + tz;
               newDate = MakeDate (MakeDay (YearFromTime tl) (MonthFromTime tl) v)
                           (TimeWithinDay tl)
           in TimeClip (newDate - tz))
      | _ \<Rightarrow> None)"

definition setHours :: "int \<Rightarrow> int \<Rightarrow> int \<Rightarrow> int \<Rightarrow> int \<Rightarrow> Date \<Rightarrow> Date" where
  "setHours tz hour minute sec ms d =
     (case d of
        None \<Rightarrow> None
      | Some t \<Rightarrow>
          (let tl = t + tz; date = MakeDate (Day tl) (MakeTime hour minute sec ms)
           in TimeClip (date - tz)))"

text \<open>\<open>toISOString\<close> throws a \<open>RangeError\<close> on an invalid date.\<close>

definition toISOString :: "Date \<Rightarrow> thrown + int" where
  "toISOString d =
     (case d of None \<Rightarrow> Inl (ErrorObject ''Invalid time value'') | Some t \<Rightarrow> Inr t)"

subsection \<open>Windows\<close>

definition startOfDayISO :: "int \<Rightarrow> string \<Rightarrow> thrown + int" where
  "startOfDayISO tz dateStrYYYYMMDD =
     toISOString (new_Date_string tz (dateStrYYYYMMDD @ ''T00:00:00''))"

definition endOfDayISO :: "int \<Rightarrow> string \<Rightarrow> thrown + int" where
  "endOfDayISO tz dateStrYYYYMMDD =
     toISOString (new_Date_string tz (dateStrYYYYMMDD @ ''T23:59:59.999''))"

record range =
  startISO :: int
  endISO :: int

text \<open>
  The object literal \<open>{ startISO: a, endISO: b }\<close>: \<open>a\<close> is evaluated first, and what it
  throws ends the evaluation.
\<close>

definition range_of :: "thrown + int \<Rightarrow> thrown + int \<Rightarrow> thrown + range" where
  "range_of a b =
     (case a of
        Inl x \<Rightarrow> Inl x
      | Inr u \<Rightarrow> (case b of Inl x \<Rightarrow> Inl x | Inr v \<Rightarrow> Inr \<lparr>startISO = u, endISO = v\<rparr>))"

definition listRange :: "int \<Rightarrow> view \<Rightarrow> thrown + range" where
  "listRange tz s =
     (if filterMode s = TODAY then
        range_of (startOfDayISO tz (selectedDate s)) (endOfDayISO tz (selectedDate s))
      else if filterMode s = D7 \<or> filterMode s = D30 then
        (let days = (if filterMode s = D7 then 7 else 30);
             end_d = new_Date_string tz (selectedDate s @ ''T23:59:59.999'');
             start0 = end_d;
             start1 = setDate tz (map_option (\<lambda>g. g - (days - 1)) (getDate tz start0)) start0;
             start2 = setHours tz 0 0 0 0 start1
         in range_of (toISOString start2) (toISOString end_d))
      else
        (let start = new_Date_string tz (rangeFrom s @ ''T00:00:00'');
             end_d = new_Date_string tz (rangeTo s @ ''T23:59:59.999'')
         in range_of (toISOString start) (toISOString end_d)))"

definition monthRange :: "int \<Rightarrow> view \<Rightarrow> thrown + range" where
  "monthRange tz s =
     (let d = new_Date_string tz (selectedDate s @ ''T00:00:00'');
          start = new_Date_fields tz (getFullYear tz d) (getMonth tz d) 1 0 0 0 0;
          next = new_Date_fields tz (getFullYear tz d)
                   (map_option (\<lambda>m. m + 1) (getMonth tz d)) 1 0 0 0 0
      in range_of (toISOString start) (toISOString next))"

subsection \<open>The store and the browser\<close>

text \<open>
  What a call of the store's client resolves to: \<open>{ data, error }\<close>.
\<close>

record 'a response =
  data :: "'a option"
  err :: "thrown option"

text \<open>A row of \<open>select("id,name")\<close> on the table of rooms.\<close>

record RoomRaw =
  id_raw :: string
  name_raw :: "string option"

text \<open>
  A JavaScript number that need not be an integer: the result of \<open>Number(s)\<close> on a
  string. \<open>Fin q\<close> stands for the double nearest to the rational \<open>q\<close>.
\<close>

datatype jsnum = NaN | PosInf | NegInf | Fin rat

text \<open>The object handed to \<open>insert\<close> on the table of payments.\<close>

record PaymentInsert =
  ins_property_id :: string
  ins_stay_id :: "string option"
  ins_room_id :: "string option"
  ins_type :: PaymentType
  ins_amount :: jsnum
  ins_method :: PaymentMethod
  ins_note :: "string option"
  ins_created_by :: string
  ins_paid_at :: int

text \<open>The upper bound of a query on \<open>paid_at\<close>: \<open>.lte(t)\<close> or \<open>.lt(t)\<close>.\<close>

datatype upper = Lte int | Lt int

text \<open>
  The calls after which the source suspends (\<open>await\<close>); \<open>mounted e c\<close> is the value of
  \<open>mountedRef.current\<close> when call \<open>c\<close> has resolved.
\<close>

datatype call = CallGetUser | CallInsert | CallRooms | CallList | CallMonth | CallDay

text \<open>
  The environment of the view: the time zone and clock of the browser, its date
  formatting for the locale \<open>vi-VN\<close>, the signed-in user, the answers of the store, and
  the life of the component. The three queries on payments are
  \<^item> \<open>selectPayList pid lo hi\<close>: the columns of \<open>PaymentRow\<close>, \<open>property_id = pid\<close>,
    \<open>paid_at >= lo\<close>, \<open>paid_at <= hi\<close>, latest first;
  \<^item> \<open>selectPayTotals pid lo up\<close>: the columns \<open>type, amount\<close>, \<open>property_id = pid\<close>,
    \<open>paid_at >= lo\<close> and \<open>paid_at\<close> under the bound \<open>up\<close>.
  \<open>insertPayment\<close> answers with the \<open>id\<close> of the new row, if the store returns one.
\<close>

record env =
  tza :: int
  now :: int
  toLocaleString :: "int \<Rightarrow> string"
  getUser :: "string option"
  selectRooms :: "string \<Rightarrow> RoomRaw list response"
  selectPayList :: "string \<Rightarrow> int \<Rightarrow> int \<Rightarrow> PaymentRow list response"
  selectPayTotals :: "string \<Rightarrow> int \<Rightarrow> upper \<Rightarrow> TypeAmount list response"
  insertPayment :: "PaymentInsert \<Rightarrow> string response"
  mounted :: "call \<Rightarrow> bool"

text \<open>What a handler does to the outside, in the order it does it.\<close>

datatype effect =
    AuthGetUser
  | SelectRooms string
  | SelectPayList string int int
  | SelectPayTotals string int upper
  | InsertPayment PaymentInsert
  | Navigate string

subsection \<open>Rendering\<close>

text \<open>
  A handler reads the state from the closure of the render that created it, and writes
  to the current state. A test \<open>!propertyId\<close> holds of \<open>null\<close> and of the empty string. \<open>rendered\<close> is that closure with its two memoised ranges. The
  ranges are computed while rendering, so that a date that does not parse makes the
  render throw.
\<close>

record rendered =
  closure :: view
  listRange_memo :: range
  monthRange_memo :: range

definition render :: "int \<Rightarrow> view \<Rightarrow> thrown + rendered" where
  "render tz s =
     (case listRange tz s of
        Inl x \<Rightarrow> Inl x
      | Inr lr \<Rightarrow>
          (case monthRange tz s of
             Inl x \<Rightarrow> Inl x
           | Inr mr \<Rightarrow> Inr \<lparr>closure = s, listRange_memo = lr, monthRange_memo = mr\<rparr>))"

subsection \<open>refreshAll\<close>

text \<open>The loop over the rooms: \<open>map[id] = name; list.push({ id, name })\<close>.\<close>

fun rooms_loop ::
  "RoomRaw list \<Rightarrow> (string \<times> string) list \<times> RoomLite list \<Rightarrow>
   (string \<times> string) list \<times> RoomLite list" where
  "rooms_loop [] (m, list) = (m, list)"
| "rooms_loop (r # rs) (m, list) =
     (let i = id_raw r; n = nullish (name_raw r) ''''
      in rooms_loop rs (AList.update i n m, list @ [\<lparr>id_room = i, name = n\<rparr>]))"

text \<open>
  The sum \<open>rs.filter((r) => r.type === t).reduce((s, r) => s + Number(r.amount ?? 0), 0)\<close>,
  which \<open>refreshAll\<close> writes out four times, for the month and the day, \<open>INCOME\<close> and
  \<open>EXPENSE\<close>.
\<close>

definition filter_reduce :: "PaymentType \<Rightarrow> TypeAmount list \<Rightarrow> int" where
  "filter_reduce t rs =
     foldl (\<lambda>s r. s + Number_num (nullish (amount r) 0)) 0 (filter (\<lambda>r. type r = t) rs)"

text \<open>
  The \<open>catch\<close> and \<open>finally\<close> blocks of \<open>refreshAll\<close>, entered with what was thrown
  after call \<open>c\<close> had resolved.
\<close>

definition refresh_catch :: "env \<Rightarrow> call \<Rightarrow> thrown \<Rightarrow> view \<Rightarrow> view" where
  "refresh_catch e c x s =
     (let message = (case x of ErrorObject m \<Rightarrow> m | OtherObject m \<Rightarrow> ''Loi tai so thu/chi.'')
      in if \<not> mounted e c then s
         else (setToast error message s)
                \<lparr>rows := [], monthIncome := 0, monthExpense := 0,
                 dayIncome := 0, dayExpense := 0, loading := False\<rparr>)"

text \<open>
  The \<open>try\<close> block after the list query has succeeded with \<open>payList\<close>: the month query,
  the day query, and the updates of the state.
\<close>

definition refresh_totals ::
  "env \<Rightarrow> rendered \<Rightarrow> string \<Rightarrow> PaymentRow list response \<Rightarrow> view \<Rightarrow> view \<times> effect list" where
  "refresh_totals e r pid payList s2 =
     (let mr = monthRange_memo r;
          payMonth = selectPayTotals e pid (startISO mr) (Lt (endISO mr));
          log3 = [SelectPayTotals pid (startISO mr) (Lt (endISO mr))]
      in case err payMonth of
           Some x \<Rightarrow> (refresh_catch e CallMonth x s2, log3)
         | None \<Rightarrow>
           (case startOfDayISO (tza e) (selectedDate (closure r)) of
              Inl x \<Rightarrow> (refresh_catch e CallMonth x s2, log3)
            | Inr dayStart \<Rightarrow>
              (case endOfDayISO (tza e) (selectedDate (closure r)) of
                 Inl x \<Rightarrow> (refresh_catch e CallMonth x s2, log3)
               | Inr dayEnd \<Rightarrow>
                 (let payDay = selectPayTotals e pid dayStart (Lte dayEnd);
                      log4 = log3 @ [SelectPayTotals pid dayStart (Lte dayEnd)]
                  in case err payDay of
                       Some x \<Rightarrow> (refresh_catch e CallDay x s2, log4)
                     | None \<Rightarrow>
                       if \<not> mounted e CallDay then (s2, log4)
                       else
                         (let payMonthRows = nullish (data payMonth) [];
                              payDayRows = nullish (data payDay) [];
                              mIncome = filter_reduce INCOME payMonthRows;
                              mExpense = filter_reduce EXPENSE payMonthRows;
                              dIncome = filter_reduce INCOME payDayRows;
                              dExpense = filter_reduce EXPENSE payDayRows
                          in (s2\<lparr>rows := nullish (data payList) [],
                                 monthIncome := mIncome, monthExpense := mExpense,
                                 dayIncome := dIncome, dayExpense := dExpense,
                                 loading := False\<rparr>, log4))))))"

definition refreshAll :: "env \<Rightarrow> rendered \<Rightarrow> view \<Rightarrow> view \<times> effect list" where
  "refreshAll e r s =
     (case propertyId (closure r) of
        None \<Rightarrow> (s, [])
      | Some pid \<Rightarrow>
        if pid = '''' then (s, [])
        else
        (let s1 = s\<lparr>loading := True, msg := ''''\<rparr>;
             rooms_q = selectRooms e pid;
             log1 = [SelectRooms pid]
         in case err rooms_q of
              Some x \<Rightarrow> (refresh_catch e CallRooms x s1, log1)
            | None \<Rightarrow>
              (let (m, list) = rooms_loop (nullish (data rooms_q) []) ([], [])
               in if \<not> mounted e CallRooms then (s1, log1)
                  else
                    (let s2 = s1\<lparr>rooms := list, roomNameById := m\<rparr>;
                         lr = listRange_memo r;
                         payList = selectPayList e pid (startISO lr) (endISO lr);
                         log2 = log1 @ [SelectPayList pid (startISO lr) (endISO lr)]
                     in case err payList of
                          Some x \<Rightarrow> (refresh_catch e CallList x s2, log2)
                        | None \<Rightarrow>
                          (let (s3, log34) = refresh_totals e r pid payList s2
                           in (s3, log2 @ log34))))))"

subsection \<open>Export\<close>

text \<open>
  A cell of a sheet, a sheet as \<open>json_to_sheet\<close> receives it (one list of pairs of a
  column header and a cell per row), and the workbook that \<open>exportWorkbookXLSX\<close> writes
  and hands to the browser as a download.
\<close>

datatype cell = Str string | Num int

record sheet =
  name_sheet :: string
  rows_sheet :: "(string \<times> cell) list list"
  colWidths :: "nat list"

record workbook =
  filename :: string
  sheets :: "sheet list"

fun mapMethodVN :: "PaymentMethod \<Rightarrow> string" where
  "mapMethodVN CASH = ''Tien mat''"
| "mapMethodVN TRANSFER = ''Chuyen khoan''"
| "mapMethodVN CARD = ''The''"

definition rangeLabel :: "view \<Rightarrow> string" where
  "rangeLabel s =
     (if filterMode s = TODAY then ''Ngay '' @ selectedDate s
      else if filterMode s = D7 then ''7 ngay gan nhat (tinh den '' @ selectedDate s @ '')''
      else if filterMode s = D30 then ''30 ngay gan nhat (tinh den '' @ selectedDate s @ '')''
      else ''Tu '' @ rangeFrom s @ '' den '' @ rangeTo s)"

text \<open>One row of the sheet \<open>Cashbook\<close>; \<open>roomName\<close> is \<open>None\<close> where the source has \<open>undefined\<close>.\<close>

definition cashbookRow :: "env \<Rightarrow> view \<Rightarrow> PaymentRow \<Rightarrow> (string \<times> cell) list" where
  "cashbookRow e s r =
     (let roomName = (case room_id r of
                        None \<Rightarrow> Some ''''
                      | Some i \<Rightarrow> if i = '''' then Some '''' else map_of (roomNameById s) i);
          room = (case roomName of
                    None \<Rightarrow> ''''
                  | Some n \<Rightarrow> if n = '''' then '''' else ''Phong '' @ n)
      in [(''Thoi gian'', Str (toLocaleString e (paid_at r))),
          (''Loai'', Str (if type r = INCOME then ''THU'' else ''CHI'')),
          (''So tien'', Num (Number_num (nullish (amount r) 0))),
          (''Phuong thuc'', Str (mapMethodVN (method_row r))),
          (''Phong'', Str room),
          (''Ghi chu'', Str (nullish (note_row r) '''')),
          (''Ma phieu'', Str (id_row r)),
          (''Stay ID'', Str (nullish (stay_id r) ''''))])"

definition summaryRows :: "env \<Rightarrow> view \<Rightarrow> (string \<times> cell) list list" where
  "summaryRows e s =
     [[(''Muc'', Str ''Tong hop NGAY (theo ngay moc)''),
       (''Khoang'', Str (selectedDate s)),
       (''Thu'', Num (dayIncome s)),
       (''Chi'', Num (dayExpense s)),
       (''Loi nhuan'', Num (dayProfit s)),
       (''Ghi chu'', Str ''Tinh tu bang payments theo ngay moc'')],
      [(''Muc'', Str ''Tong hop THANG (theo ngay moc)''),
       (''Khoang'', Str (''Thang cua '' @ selectedDate s)),
       (''Thu'', Num (monthIncome s)),
       (''Chi'', Num (monthExpense s)),
       (''Loi nhuan'', Num (monthProfit s)),
       (''Ghi chu'', Str ''Tinh tu bang payments theo thang cua ngay moc'')],
      [(''Muc'', Str ''Tong hop thoi gian chon (danh sach dang xem)''),
       (''Khoang'', Str (rangeLabel s)),
       (''Thu'', Num (income (rangeTotals (rows s)))),
       (''Chi'', Num (expense (rangeTotals (rows s)))),
       (''Loi nhuan'', Num (profit (rangeTotals (rows s)))),
       (''Ghi chu'', Str ''Tinh tu danh sach phieu dang hien thi'')],
      [(''Muc'', Str ''Thong tin xuat file''),
       (''Khoang'', Str (toLocaleString e (now e))),
       (''Thu'', Str ''''),
       (''Chi'', Str ''''),
       (''Loi nhuan'', Str ''''),
       (''Ghi chu'', Str (case propertyId s of
                           None \<Rightarrow> ''''
                         | Some p \<Rightarrow> if p = '''' then '''' else ''property_id: '' @ p))]]"

text \<open>
  \<open>onExportXLSX\<close>. It has no parameter and no result in the source: it reads the state
  of its closure \<open>s\<close> and makes the browser download the workbook, which is the result
  here.
\<close>

definition onExportXLSX :: "env \<Rightarrow> view \<Rightarrow> workbook" where
  "onExportXLSX e s =
     (let cashbookRows = map (cashbookRow e s) (rows s);
          fname =
            (if filterMode s = TODAY then ''cashbook_'' @ selectedDate s @ ''.xlsx''
             else if filterMode s = D7 then ''cashbook_'' @ selectedDate s @ ''_7days.xlsx''
             else if filterMode s = D30 then ''cashbook_'' @ selectedDate s @ ''_30days.xlsx''
             else ''cashbook_'' @ rangeFrom s @ ''_to_'' @ rangeTo s @ ''.xlsx'')
      in \<lparr>filename = fname,
          sheets =
            [\<lparr>name_sheet = ''Cashbook'', rows_sheet = cashbookRows,
              colWidths = [20, 8, 12, 14, 12, 40, 18, 18]\<rparr>,
             \<lparr>name_sheet = ''Summary'', rows_sheet = summaryRows e s,
              colWidths = [30, 22, 12, 12, 12, 40]\<rparr>]\<rparr>)"

text \<open>
  The export button: \<open>disabled={loading || rows.length === 0}\<close>. A click on a disabled
  button calls no handler; \<open>None\<close> is "no file".
\<close>

definition exportDisabled :: "view \<Rightarrow> bool" where
  "exportDisabled s = (loading s \<or> length (rows s) = 0)"

definition onClickExport :: "env \<Rightarrow> view \<Rightarrow> workbook option" where
  "onClickExport e s = (if exportDisabled s then None else Some (onExportXLSX e s))"

subsection \<open>Number(s) on a string\<close>

text \<open>
  \<open>StringToNumber\<close> of ECMA-262 on a string of ASCII characters: white space around the
  literal is dropped, the empty string is 0, and the literal is \<open>Infinity\<close> or a decimal
  literal, with an optional sign, or an unsigned binary, octal or hexadecimal integer.
  Anything else is \<open>NaN\<close>.
\<close>

definition is_ws :: "char \<Rightarrow> bool" where
  "is_ws c = (let n = (of_char c :: nat) in n = 32 \<or> (9 \<le> n \<and> n \<le> 13))"

definition trim :: "string \<Rightarrow> string" where
  "trim s = rev (dropWhile is_ws (rev (dropWhile is_ws s)))"

text \<open>\<open>split_at p s\<close>: the part of \<open>s\<close> before its first character with \<open>p\<close>, and the part after it.\<close>

fun split_at :: "(char \<Rightarrow> bool) \<Rightarrow> string \<Rightarrow> string \<times> string option" where
  "split_at p [] = ([], None)"
| "split_at p (c # cs) =
     (if p c then ([], Some cs)
      else (let (a, b) = split_at p cs in (c # a, b)))"

definition hex_digit :: "char \<Rightarrow> int option" where
  "hex_digit c =
     (let n = (of_char c :: nat)
      in if 48 \<le> n \<and> n \<le> 57 then Some (int n - 48)
         else if 65 \<le> n \<and> n \<le> 70 then Some (int n - 55)
         else if 97 \<le> n \<and> n \<le> 102 then Some (int n - 87)
         else None)"

fun digits_base :: "int \<Rightarrow> int \<Rightarrow> string \<Rightarrow> int option" where
  "digits_base b acc [] = Some acc"
| "digits_base b acc (c # cs) =
     (case hex_digit c of
        None \<Rightarrow> None
      | Some d \<Rightarrow> if d < b then digits_base b (b * acc + d) cs else None)"

text \<open>\<open>NonDecimalIntegerLiteral\<close>: \<open>0b\<close>, \<open>0o\<close> or \<open>0x\<close> (in either case) and digits.\<close>

definition non_decimal :: "string \<Rightarrow> int option" where
  "non_decimal t =
     (if length t \<le> 2 \<or> t ! 0 \<noteq> CHR ''0'' then None
      else if t ! 1 = CHR ''x'' \<or> t ! 1 = CHR ''X'' then digits_base 16 0 (drop 2 t)
      else if t ! 1 = CHR ''o'' \<or> t ! 1 = CHR ''O'' then digits_base 8 0 (drop 2 t)
      else if t ! 1 = CHR ''b'' \<or> t ! 1 = CHR ''B'' then digits_base 2 0 (drop 2 t)
      else None)"

text \<open>\<open>ExponentPart\<close> without its \<open>e\<close>: an optional sign and digits.\<close>

definition exponent_part :: "string \<Rightarrow> int option" where
  "exponent_part x =
     (case x of
        [] \<Rightarrow> None
      | c # r \<Rightarrow>
          if c = CHR ''+'' then digits r
          else if c = CHR ''-'' then map_option uminus (digits r)
          else digits x)"

text \<open>
  \<open>StrUnsignedDecimalLiteral\<close> other than \<open>Infinity\<close>: digits with an optional fraction
  (\<open>12\<close>, \<open>12.\<close>, \<open>12.5\<close>, \<open>.5\<close>) and an optional exponent. The result is its mathematical
  value.
\<close>

definition unsigned_decimal :: "string \<Rightarrow> rat option" where
  "unsigned_decimal u =
     (let (mant, ex) = split_at (\<lambda>c. c = CHR ''e'' \<or> c = CHR ''E'') u;
          (ip, fr) = split_at (\<lambda>c. c = CHR ''.'') mant;
          fp = nullish fr [];
          k = (case ex of None \<Rightarrow> Some 0 | Some x \<Rightarrow> exponent_part x)
      in if ip = [] \<and> fp = [] then None
         else
           (case (digits_from 0 (ip @ fp), k) of
              (Some m, Some k) \<Rightarrow>
                (let p = k - int (length fp)
                 in Some (if 0 \<le> p then of_int m * 10 ^ nat p
                          else of_int m / 10 ^ nat (- p)))
            | _ \<Rightarrow> None))"

text \<open>
  Rounding to a double, as far as it decides whether a number is finite and whether it
  is zero: from \<open>2 ^ 1024 - 2 ^ 970\<close> on a value rounds to an infinity, and up to
  \<open>2 ^ -1075\<close> it rounds to zero.
\<close>

definition to_double :: "rat \<Rightarrow> jsnum" where
  "to_double q =
     (if 2 ^ 1024 - 2 ^ 970 \<le> \<bar>q\<bar> then (if 0 < q then PosInf else NegInf)
      else if \<bar>q\<bar> \<le> 1 / 2 ^ 1075 then Fin 0
      else Fin q)"

definition Number_str :: "string \<Rightarrow> jsnum" where
  "Number_str s =
     (let t = trim s
      in if t = [] then Fin 0
         else
           (case non_decimal t of
              Some v \<Rightarrow> to_double (of_int v)
            | None \<Rightarrow>
                (let neg = (hd t = CHR ''-'');
                     u = (if hd t = CHR ''-'' \<or> hd t = CHR ''+'' then tl t else t)
                 in if u = ''Infinity'' then (if neg then NegInf else PosInf)
                    else
                      (case unsigned_decimal u of
                         None \<Rightarrow> NaN
                       | Some q \<Rightarrow> to_double (if neg then - q else q)))))"

text \<open>\<open>Number.isFinite(n)\<close> and the comparison \<open>n <= 0\<close>, which is false on \<open>NaN\<close>.\<close>

fun isFinite :: "jsnum \<Rightarrow> bool" where
  "isFinite (Fin q) = True"
| "isFinite n = False"

fun le_zero :: "jsnum \<Rightarrow> bool" where
  "le_zero (Fin q) = (q \<le> 0)"
| "le_zero NegInf = True"
| "le_zero n = False"

subsection \<open>submitExpense\<close>

text \<open>
  The \<open>catch\<close> and \<open>finally\<close> blocks of \<open>submitExpense\<close>, entered with what was thrown
  after call \<open>c\<close> had resolved.
\<close>

definition submit_catch :: "env \<Rightarrow> call \<Rightarrow> thrown \<Rightarrow> view \<Rightarrow> view" where
  "submit_catch e c x s =
     (let message = (case x of ErrorObject m \<Rightarrow> m | OtherObject m \<Rightarrow> ''Da xay ra loi.'');
          s' = (if mounted e c then setToast error message s else s)
      in s'\<lparr>submittingExpense := False\<rparr>)"

definition submitExpense :: "env \<Rightarrow> rendered \<Rightarrow> view \<Rightarrow> view \<times> effect list" where
  "submitExpense e r s =
     (let c = closure r
      in case propertyId c of
           None \<Rightarrow> (s, [])
         | Some pid \<Rightarrow>
           if pid = '''' then (s, [])
           else
           (let amount = Number_str (expAmount c)
            in if \<not> isFinite amount \<or> le_zero amount then
                 (setToast error ''So tien chi khong hop le.'' s, [])
               else
                 (let s1 = s\<lparr>submittingExpense := True, msg := ''''\<rparr>;
                      log1 = [AuthGetUser]
                  in case getUser e of
                       None \<Rightarrow> (s1\<lparr>submittingExpense := False\<rparr>, log1 @ [Navigate ''/''])
                     | Some uid \<Rightarrow>
                       (case toISOString (new_Date_string (tza e) (expDate c @ ''T12:00:00'')) of
                          Inl x \<Rightarrow> (submit_catch e CallGetUser x s1, log1)
                        | Inr paid \<Rightarrow>
                          (let payload =
                                 \<lparr>ins_property_id = pid,
                                  ins_stay_id = None,
                                  ins_room_id = (if expRoomId c = '''' then None
                                                 else Some (expRoomId c)),
                                  ins_type = EXPENSE,
                                  ins_amount = amount,
                                  ins_method = expMethod c,
                                  ins_note = (if expNote c = '''' then None
                                              else Some (expNote c)),
                                  ins_created_by = uid,
                                  ins_paid_at = paid\<rparr>;
                               created = insertPayment e payload;
                               log2 = log1 @ [InsertPayment payload]
                           in case err created of
                                Some x \<Rightarrow> (submit_catch e CallInsert x s1, log2)
                              | None \<Rightarrow>
                                (let s2 = (setToast success ''Da tao phieu chi.'' s1)
                                            \<lparr>expAmount := '''', expNote := '''',
                                             expMethod := CASH, expRoomId := '''',
                                             selectedDate := expDate c\<rparr>;
                                     (s3, log3) = refreshAll e r s2;
                                     go = (case data created of
                                             None \<Rightarrow> []
                                           | Some i \<Rightarrow>
                                               if i = '''' then []
                                               else [Navigate (''/reports/cashbook?propertyId=''
                                                       @ pid @ ''&focus='' @ i)])
                                 in (s3\<lparr>submittingExpense := False\<rparr>,
                                     log2 @ log3 @ go)))))))"

subsection \<open>createIncomePaymentFromStay (src/lib/payments.ts)\<close>



subsection \<open>Entries without an amount\<close>

text \<open>An entry with a missing amount replaced by 0.\<close>

definition zero_null :: "'a TypeAmount_scheme \<Rightarrow> 'a TypeAmount_scheme" where
  "zero_null r = r\<lparr>amount := Some (nullish (amount r) 0)\<rparr>"

text \<open>
  The store of \<open>e\<close> with the missing amounts replaced by 0 in every answer to a query
  for totals.
\<close>

definition zero_null_store :: "env \<Rightarrow> env" where
  "zero_null_store e =
     e\<lparr>selectPayTotals := (\<lambda>pid lo up.
          (selectPayTotals e pid lo up)
            \<lparr>data := map_option (map zero_null) (data (selectPayTotals e pid lo up))\<rparr>)\<rparr>"

subsection \<open>The words of the specification about an amount\<close>

text \<open>
  "The amount parses to a finite number greater than 0", in the words of the
  specification; lemma \<open>invalid_amount_test\<close> compares it with the test in
  \<open>submitExpense\<close>.
\<close>

fun finite_positive :: "jsnum \<Rightarrow> bool" where
  "finite_positive (Fin q) = (0 < q)"
| "finite_positive n = False"

text \<open>
  The dependencies of the effect that calls \<open>refreshAll\<close>: a handler triggers a refresh
  through the effect when it changes one of them.
\<close>

definition refresh_deps :: "view \<Rightarrow> string option \<times> string \<times> FilterMode \<times> string \<times> string" where
  "refresh_deps s = (propertyId s, selectedDate s, filterMode s, rangeFrom s, rangeTo s)"

subsection \<open>Sample data\<close>

text \<open>A view in mode \<open>RANGE\<close> showing January 2024, with the anchor on 10 January.\<close>

definition view0 :: view where
  "view0 = \<lparr>loading = False, msg = '''', msgType = info, propertyId = Some ''p1'',
     selectedDate = ''2024-01-10'', filterMode = RANGE,
     rangeFrom = ''2024-01-01'', rangeTo = ''2024-01-31'',
     rooms = [], roomNameById = [], rows = [],
     dayIncome = 0, dayExpense = 0, monthIncome = 0, monthExpense = 0,
     expAmount = '''', expMethod = CASH, expNote = '''', expDate = ''2024-01-10'',
     expRoomId = '''', submittingExpense = False\<rparr>"

text \<open>
  Three entries of property \<open>p1\<close>, in a browser seven hours ahead of UTC: an income of
  100000 on 10 January 2024 at 09:00, an expense of 30000 on the same day at 14:00, and
  an income of 50000 on 11 January at 10:00.
\<close>

definition table0 :: "PaymentRow list" where
  "table0 =
     [\<lparr>type = INCOME, amount = Some 100000, id_row = ''pay-1'', method_row = CASH,
       note_row = None, paid_at = 1704852000000, stay_id = Some ''stay-1'',
       room_id = Some ''room-1''\<rparr>,
      \<lparr>type = EXPENSE, amount = Some 30000, id_row = ''pay-2'', method_row = CASH,
       note_row = Some ''dien'', paid_at = 1704870000000, stay_id = None, room_id = None\<rparr>,
      \<lparr>type = INCOME, amount = Some 50000, id_row = ''pay-3'', method_row = TRANSFER,
       note_row = None, paid_at = 1704942000000, stay_id = Some ''stay-2'',
       room_id = Some ''room-2''\<rparr>]"

fun under :: "upper \<Rightarrow> int \<Rightarrow> bool" where
  "under (Lte t) x = (x \<le> t)"
| "under (Lt t) x = (x < t)"

text \<open>
  A store that holds \<open>table0\<close> and two rooms, answers every query, and returns the
  identifier \<open>pay-9\<close> for an insert; the user \<open>u1\<close> is signed in and the view stays
  mounted.
\<close>

definition env0 :: env where
  "env0 =
     \<lparr>tza = 25200000, now = 1704880800000, toLocaleString = (\<lambda>t. ''10/1/2024''),
      getUser = Some ''u1'',
      selectRooms = (\<lambda>pid. \<lparr>data = Some [\<lparr>id_raw = ''room-1'', name_raw = Some ''101''\<rparr>,
                                            \<lparr>id_raw = ''room-2'', name_raw = None\<rparr>],
                              err = None\<rparr>),
      selectPayList = (\<lambda>pid lo hi.
         \<lparr>data = Some (filter (\<lambda>r. lo \<le> paid_at r \<and> paid_at r \<le> hi) (rev table0)),
          err = None\<rparr>),
      selectPayTotals = (\<lambda>pid lo up.
         \<lparr>data = Some (map (\<lambda>r. \<lparr>type = type r, amount = amount r\<rparr>)
                        (filter (\<lambda>r. lo \<le> paid_at r \<and> under up (paid_at r)) table0)),
          err = None\<rparr>),
      insertPayment = (\<lambda>p. \<lparr>data = Some ''pay-9'', err = None\<rparr>),
      mounted = (\<lambda>c. True)\<rparr>"

text \<open>The view of 10 January 2024 in mode \<open>TODAY\<close>, and what rendering it gives.\<close>

definition viewA :: view where
  "viewA = view0\<lparr>filterMode := TODAY, rangeFrom := ''2024-01-10'', rangeTo := ''2024-01-10''\<rparr>"

definition renderedA :: rendered where
  "renderedA =
     \<lparr>closure = viewA,
      listRange_memo = \<lparr>startISO = 1704819600000, endISO = 1704905999999\<rparr>,
      monthRange_memo = \<lparr>startISO = 1704042000000, endISO = 1706720400000\<rparr>\<rparr>"


text \<open>The view of 10 January 2024 after a refresh that went through.\<close>

definition viewA_loaded :: view where
  "viewA_loaded = fst (refreshAll env0 renderedA viewA)"




definition viewBad :: view where
  "viewBad = viewA_loaded\<lparr>expAmount := ''abc''\<rparr>"

definition renderedBad :: rendered where
  "renderedBad = renderedA\<lparr>closure := viewBad\<rparr>"






section \<open>Properties\<close>

subsection \<open>The anchor date and the filter mode\<close>





subsection \<open>Totals\<close>

lemma foldl_add_sum_list:
  fixes a :: int
  shows "foldl (\<lambda>s r. s + f r) a xs = a + sum_list (map f xs)"
  by (induction xs arbitrary: a) simp_all

lemma filter_reduce_sum:
  "filter_reduce t rs = (\<Sum>r\<leftarrow>filter (\<lambda>r. type r = t) rs. nullish (amount r) 0)"
  by (simp add: filter_reduce_def Number_num_def foldl_add_sum_list)

lemma rangeTotals_sum:
  "rangeTotals rs =
     \<lparr>income = (\<Sum>r\<leftarrow>filter (\<lambda>r. type r = INCOME) rs. nullish (amount r) 0),
      expense = (\<Sum>r\<leftarrow>filter (\<lambda>r. type r = EXPENSE) rs. nullish (amount r) 0),
      profit = (\<Sum>r\<leftarrow>filter (\<lambda>r. type r = INCOME) rs. nullish (amount r) 0)
             - (\<Sum>r\<leftarrow>filter (\<lambda>r. type r = EXPENSE) rs. nullish (amount r) 0)\<rparr>"
  by (simp add: rangeTotals_def Number_num_def foldl_add_sum_list Let_def)




lemma nullish_Some [simp]: "nullish (Some v) d = v"
  by (simp add: nullish_def)

lemma nullish_zero_null [simp]: "nullish (amount (zero_null r)) 0 = nullish (amount r) 0"
  by (simp add: zero_null_def nullish_def)

lemma type_zero_null [simp]: "type (zero_null r) = type r"
  by (simp add: zero_null_def)

lemma filter_zero_null:
  "filter (\<lambda>r. type r = t) (map zero_null rs) = map zero_null (filter (\<lambda>r. type r = t) rs)"
  by (induction rs) simp_all

lemma filter_reduce_zero_null: "filter_reduce t (map zero_null ps) = filter_reduce t ps"
  by (simp add: filter_reduce_sum filter_zero_null comp_def)

lemma rangeTotals_zero_null: "rangeTotals (map zero_null rs) = rangeTotals rs"
  by (simp add: rangeTotals_sum filter_zero_null comp_def)

lemma nullish_map_option:
  "nullish (map_option (map f) d) [] = map f (nullish d [])"
  by (cases d) (simp_all add: nullish_def)

lemma refresh_catch_zero_null [simp]:
  "refresh_catch (zero_null_store e) c x s = refresh_catch e c x s"
  by (simp add: refresh_catch_def zero_null_store_def)

lemma refresh_totals_zero_null:
  "refresh_totals (zero_null_store e) r pid pl s = refresh_totals e r pid pl s"
proof -
  have a: "selectPayTotals (zero_null_store e) = (\<lambda>pid lo up.
          (selectPayTotals e pid lo up)
            \<lparr>data := map_option (map zero_null) (data (selectPayTotals e pid lo up))\<rparr>)"
    and b: "tza (zero_null_store e) = tza e" "mounted (zero_null_store e) = mounted e"
    by (simp_all add: zero_null_store_def)
  show ?thesis
    unfolding refresh_totals_def Let_def a b
    by (simp add: nullish_map_option filter_reduce_zero_null
        split: option.splits sum.splits)
qed

lemma refreshAll_zero_null: "refreshAll (zero_null_store e) r s = refreshAll e r s"
proof -
  have b: "selectRooms (zero_null_store e) = selectRooms e"
    "selectPayList (zero_null_store e) = selectPayList e"
    "mounted (zero_null_store e) = mounted e"
    by (simp_all add: zero_null_store_def)
  show ?thesis
    unfolding refreshAll_def Let_def b refresh_totals_zero_null
    by (simp split: option.splits prod.splits)
qed

text \<open>
  Claim C10. An entry without an amount counts as 0 in the range totals, in the sums of
  the day and month totals, and in its row of the exported sheet: each of them is the same
  on a list and on the list with the missing amounts replaced by 0, and a refresh gives the same
  state whether the store answers its queries for totals with missing amounts or with 0
  in their place. None of these computations has a failing case.
\<close>

theorem null_amount_counts_zero:
  "rangeTotals (map zero_null rs) = rangeTotals rs \<and>
   filter_reduce t (map zero_null ps) = filter_reduce t ps \<and>
   cashbookRow e s (zero_null p) = cashbookRow e s p \<and>
   map_of (cashbookRow e s p) ''So tien'' = Some (Num (nullish (amount p) 0)) \<and>
   refreshAll (zero_null_store e) r s = refreshAll e r s"
  by (simp add: rangeTotals_zero_null filter_reduce_zero_null refreshAll_zero_null
      cashbookRow_def Let_def zero_null_def Number_num_def)

subsection \<open>Days, months and years\<close>

lemma div_step:
  fixes x n :: int
  assumes "0 < n"
  shows "(x + 1) div n = x div n + (if (x + 1) mod n = 0 then 1 else 0)"
proof -
  define q where "q = x div n"
  define r where "r = x mod n"
  have x: "x = n * q + r" and r: "0 \<le> r" "r < n"
    using assms by (simp_all add: q_def r_def)
  show ?thesis
  proof (cases "r = n - 1")
    case True
    then have e: "x + 1 = n * (q + 1) + 0" using x by (simp add: algebra_simps)
    have "(x + 1) div n = q + 1" using assms by (intro int_div_pos_eq [OF e]) simp_all
    moreover have "(x + 1) mod n = 0" using assms by (intro int_mod_pos_eq [OF e]) simp_all
    ultimately show ?thesis by (simp add: q_def)
  next
    case False
    then have r1: "0 \<le> r + 1" "r + 1 < n" using r by simp_all
    have e: "x + 1 = n * q + (r + 1)" using x by simp
    have "(x + 1) div n = q" by (rule int_div_pos_eq [OF e r1])
    moreover have "(x + 1) mod n = r + 1" by (rule int_mod_pos_eq [OF e r1])
    ultimately show ?thesis using r by (simp add: q_def)
  qed
qed

lemma m4: "(y - 1968) mod 4 = (y::int) mod 4"
  using mod_mult_self2 [of y 4 "- 492"] by simp
lemma m100: "(y - 1900) mod 100 = (y::int) mod 100"
  using mod_mult_self2 [of y 100 "- 19"] by simp
lemma m400: "(y - 1600) mod 400 = (y::int) mod 400"
  using mod_mult_self2 [of y 400 "- 4"] by simp
lemma m100_4: "(y::int) mod 100 = 0 \<Longrightarrow> y mod 4 = 0"
  using mod_mod_cancel [of 4 100 y] by simp
lemma m400_100: "(y::int) mod 400 = 0 \<Longrightarrow> y mod 100 = 0"
  using mod_mod_cancel [of 100 400 y] by simp

lemma DayFromYear_Suc: "DayFromYear (y + 1) = DayFromYear y + DaysInYear y"
proof -
  have a: "(y + 1 - 1969) div 4 = (y - 1969) div 4 + (if y mod 4 = 0 then 1 else 0)"
    using div_step [of 4 "y - 1969"] m4 [of y] by (simp add: algebra_simps)
  have b: "(y + 1 - 1901) div 100 = (y - 1901) div 100 + (if y mod 100 = 0 then 1 else 0)"
    using div_step [of 100 "y - 1901"] m100 [of y] by (simp add: algebra_simps)
  have c: "(y + 1 - 1601) div 400 = (y - 1601) div 400 + (if y mod 400 = 0 then 1 else 0)"
    using div_step [of 400 "y - 1601"] m400 [of y] by (simp add: algebra_simps)
  show ?thesis
    unfolding DayFromYear_def DaysInYear_def a b c
    using m100_4 [of y] m400_100 [of y] by auto
qed


lemma div_bounds:
  fixes x n :: int
  assumes "0 < n"
  shows "n * (x div n) \<le> x" and "x < n * (x div n) + n"
proof -
  have "x = n * (x div n) + x mod n" by simp
  moreover have "0 \<le> x mod n" "x mod n < n" using assms by simp_all
  ultimately show "n * (x div n) \<le> x" and "x < n * (x div n) + n" by linarith+
qed

lemma DayFromYear_estimate:
  "146097 * (y - 1970) - 506 \<le> 400 * DayFromYear y"
  "400 * DayFromYear y \<le> 146097 * (y - 1970) + 589"
proof -
  define a where "a = (y - 1969) div 4"
  define b where "b = (y - 1901) div 100"
  define c where "c = (y - 1601) div 400"
  have a: "4 * a \<le> y - 1969" "y - 1969 < 4 * a + 4"
    using div_bounds [of 4 "y - 1969"] by (simp_all add: a_def)
  have b: "100 * b \<le> y - 1901" "y - 1901 < 100 * b + 100"
    using div_bounds [of 100 "y - 1901"] by (simp_all add: b_def)
  have c: "400 * c \<le> y - 1601" "y - 1601 < 400 * c + 400"
    using div_bounds [of 400 "y - 1601"] by (simp_all add: c_def)
  have e: "DayFromYear y = 365 * (y - 1970) + a - b + c"
    by (simp add: DayFromYear_def a_def b_def c_def)
  show "146097 * (y - 1970) - 506 \<le> 400 * DayFromYear y"
    unfolding e using a b c by (simp add: algebra_simps)
  show "400 * DayFromYear y \<le> 146097 * (y - 1970) + 589"
    unfolding e using a b c by (simp add: algebra_simps)
qed

lemma DaysInYear_ge: "365 \<le> DaysInYear y" "DaysInYear y \<le> 366"
  by (simp_all add: DaysInYear_def)

lemma DayFromYear_add: "DayFromYear y + 365 * int n \<le> DayFromYear (y + int n)"
proof (induction n)
  case 0
  then show ?case by simp
next
  case (Suc n)
  have "DayFromYear (y + int (Suc n)) = DayFromYear (y + int n) + DaysInYear (y + int n)"
    using DayFromYear_Suc [of "y + int n"] by (simp add: algebra_simps)
  with Suc DaysInYear_ge(1) [of "y + int n"] show ?case by simp
qed

lemma DayFromYear_mono: "y \<le> z \<Longrightarrow> DayFromYear y \<le> DayFromYear z"
  using DayFromYear_add [of y "nat (z - y)"] by simp

lemma YearFromTime_bounds:
  "DayFromYear (YearFromTime t) \<le> Day t" "Day t < DayFromYear (YearFromTime t + 1)"
proof -
  define d where "d = Day t"
  define y where "y = 1970 + (400 * d) div 146097"
  have k: "146097 * (y - 1970) \<le> 400 * d" "400 * d < 146097 * (y - 1970) + 146097"
    using div_bounds [of 146097 "400 * d"] by (simp_all add: y_def)
  have e1: "400 * DayFromYear (y - 1) \<le> 146097 * (y - 1970) - 145508"
    using DayFromYear_estimate(2) [of "y - 1"] by simp
  have e2: "146097 * (y - 1970) + 291688 \<le> 400 * DayFromYear (y + 2)"
    using DayFromYear_estimate(1) [of "y + 2"] by simp
  have lo: "DayFromYear (y - 1) \<le> d"
    using e1 k by linarith
  have hi: "d < DayFromYear (y + 2)"
    using e2 k by linarith
  have e: "YearFromTime t = (if DayFromYear (y + 1) \<le> d then y + 1
         else if DayFromYear y \<le> d then y else y - 1)"
    by (simp add: YearFromTime_def Let_def d_def y_def)
  show "DayFromYear (YearFromTime t) \<le> Day t" using lo by (simp add: e d_def)
  show "Day t < DayFromYear (YearFromTime t + 1)"
    using hi by (auto simp add: e d_def algebra_simps)
qed

lemma YearFromTime_unique:
  assumes "DayFromYear y \<le> Day t" "Day t < DayFromYear (y + 1)"
  shows "YearFromTime t = y"
proof (rule ccontr)
  assume ne: "YearFromTime t \<noteq> y"
  show False
  proof (cases "YearFromTime t < y")
    case True
    then have "DayFromYear (YearFromTime t + 1) \<le> DayFromYear y"
      by (intro DayFromYear_mono) simp
    with YearFromTime_bounds(2) [of t] assms(1) show False by linarith
  next
    case False
    with ne have "DayFromYear (y + 1) \<le> DayFromYear (YearFromTime t)"
      by (intro DayFromYear_mono) simp
    with YearFromTime_bounds(1) [of t] assms(2) show False by linarith
  qed
qed

lemma Day_MakeDate:
  assumes "0 \<le> tm" "tm < msPerDay"
  shows "Day (MakeDate n tm) = n" "TimeWithinDay (MakeDate n tm) = tm"
proof -
  have e: "MakeDate n tm = msPerDay * n + tm" by (simp add: MakeDate_def)
  have p: "0 < msPerDay" by (simp add: msPerDay_def)
  show "Day (MakeDate n tm) = n" unfolding Day_def by (rule int_div_pos_eq [OF e assms])
  show "TimeWithinDay (MakeDate n tm) = tm"
    unfolding TimeWithinDay_def by (rule int_mod_pos_eq [OF e assms])
qed

lemma month_cases:
  fixes mn :: int
  assumes "0 \<le> mn" "mn < 12"
  shows "mn = 0 \<or> mn = 1 \<or> mn = 2 \<or> mn = 3 \<or> mn = 4 \<or> mn = 5 \<or> mn = 6 \<or> mn = 7 \<or>
         mn = 8 \<or> mn = 9 \<or> mn = 10 \<or> mn = 11"
  using assms by arith

lemma DaysBeforeMonth_bounds:
  assumes "0 \<le> mn" "mn < 12" "1 \<le> d" "d \<le> DaysInMonth y (mn + 1)"
  shows "0 \<le> DaysBeforeMonth y mn + d - 1" "DaysBeforeMonth y mn + d - 1 < DaysInYear y"
proof -
  show "0 \<le> DaysBeforeMonth y mn + d - 1"
    using month_cases [OF assms(1,2)] assms(3)
    by (elim disjE) (simp_all add: DaysBeforeMonth_def Let_def)
  show "DaysBeforeMonth y mn + d - 1 < DaysInYear y"
    using month_cases [OF assms(1,2)] assms(4) DaysInYear_ge [of y]
    by (elim disjE) (simp_all add: DaysBeforeMonth_def DaysInMonth_def Let_def split: if_splits)
qed

lemma civil_round_trip:
  assumes mn: "0 \<le> mn" "mn < 12" and d: "1 \<le> d" "d \<le> DaysInMonth y (mn + 1)"
    and tm: "0 \<le> tm" "tm < msPerDay"
  shows "YearFromTime (MakeDate (MakeDay y mn d) tm) = y"
    and "MonthFromTime (MakeDate (MakeDay y mn d) tm) = mn"
    and "DateFromTime (MakeDate (MakeDay y mn d) tm) = d"
proof -
  let ?t = "MakeDate (MakeDay y mn d) tm"
  have md: "MakeDay y mn d = DayFromYear y + (DaysBeforeMonth y mn + d - 1)"
    using mn by (simp add: MakeDay_def Let_def)
  have day: "Day ?t = DayFromYear y + (DaysBeforeMonth y mn + d - 1)"
    using Day_MakeDate(1) [OF tm] md by simp
  have yr: "YearFromTime ?t = y"
    using DaysBeforeMonth_bounds [OF mn d] day DayFromYear_Suc [of y]
    by (intro YearFromTime_unique) simp_all
  have dwy: "DayWithinYear ?t = DaysBeforeMonth y mn + d - 1"
    by (simp add: DayWithinYear_def yr day)
  have lp: "InLeapYear ?t = (if DaysInYear y = 366 then 1 else 0)"
    by (simp add: InLeapYear_def yr)
  show "YearFromTime ?t = y" by (rule yr)
  show m: "MonthFromTime ?t = mn"
    unfolding MonthFromTime_def dwy lp using month_cases [OF mn] d
    by (elim disjE) (simp_all add: DaysBeforeMonth_def DaysInMonth_def Let_def split: if_splits)
  show "DateFromTime ?t = d"
    unfolding DateFromTime_def m dwy lp using month_cases [OF mn]
    by (elim disjE) (simp_all add: DaysBeforeMonth_def Let_def)
qed

subsection \<open>Parsing a date\<close>

lemma digit_range: "digit c = Some d \<Longrightarrow> 0 \<le> d \<and> d \<le> 9"
  by (auto simp add: digit_def Let_def split: if_splits)

lemma digits_from_range:
  "digits_from acc cs = Some v \<Longrightarrow> 0 \<le> acc \<Longrightarrow> 0 \<le> v \<and> v < (acc + 1) * 10 ^ length cs"
proof (induction cs arbitrary: acc)
  case Nil
  then show ?case by simp
next
  case (Cons c cs)
  from Cons.prems(1) obtain d where d: "digit c = Some d"
    and r: "digits_from (10 * acc + d) cs = Some v"
    by (auto split: option.splits)
  from digit_range [OF d] Cons.prems(2) have p: "0 \<le> 10 * acc + d" by simp
  from Cons.IH [OF r p] have v: "0 \<le> v" "v < (10 * acc + d + 1) * 10 ^ length cs" by simp_all
  have le: "(10 * acc + d + 1) * 10 ^ length cs \<le> (10 * acc + 10) * (10::int) ^ length cs"
    using digit_range [OF d] by (intro mult_right_mono) simp_all
  have eq: "(10 * acc + 10) * (10::int) ^ length cs = (acc + 1) * 10 ^ length (c # cs)"
    by (simp add: algebra_simps)
  have "v < (acc + 1) * 10 ^ length (c # cs)"
    using less_le_trans [OF v(2) le] unfolding eq .
  with v(1) show ?case by blast
qed

lemma digits_range: "digits cs = Some v \<Longrightarrow> 0 \<le> v \<and> v < 10 ^ length cs"
  using digits_from_range [of 0 cs v] by (simp add: digits_def split: if_splits)

text \<open>What a date string that parses is made of.\<close>

lemma parse_ymd_Some:
  assumes "parse_ymd D = Some (y, m, d)"
  shows "length D = 10" and "0 \<le> y" and "y \<le> 9999"
    and "1 \<le> m" and "m \<le> 12" and "1 \<le> d" and "d \<le> DaysInMonth y m"
proof -
  from assms have len: "length D = 10"
    by (simp add: parse_ymd_def split: if_splits)
  from assms obtain y0 where y0: "digits (take 4 D) = Some y0" and "y0 = y"
    and rest: "1 \<le> m \<and> m \<le> 12 \<and> 1 \<le> d \<and> d \<le> DaysInMonth y m"
    by (auto simp add: parse_ymd_def split: if_splits option.splits)
  from digits_range [OF y0] len \<open>y0 = y\<close> have "0 \<le> y \<and> y < 10000" by simp
  then show "0 \<le> y" and "y \<le> 9999" by simp_all
  show "length D = 10" by (rule len)
  from rest show "1 \<le> m" and "m \<le> 12" and "1 \<le> d" and "d \<le> DaysInMonth y m"
    by simp_all
qed

lemma parse_hms_literals:
  "parse_hms ''00:00:00'' = Some 0"
  "parse_hms ''23:59:59.999'' = Some 86399999"
  "parse_hms ''12:00:00'' = Some 43200000"
  by code_simp+

lemma new_Date_string_valid:
  assumes "parse_ymd D = Some (y, m, d)" and "parse_hms T = Some tm"
  shows "new_Date_string tz (D @ CHR ''T'' # T)
           = TimeClip (MakeDate (MakeDay y (m - 1) d) tm - tz)"
proof -
  from parse_ymd_Some(1) [OF assms(1)] have len: "length D = 10" .
  then have "take 10 (D @ CHR ''T'' # T) = D" "drop 11 (D @ CHR ''T'' # T) = T"
      "(D @ CHR ''T'' # T) ! 10 = CHR ''T''" "10 < length (D @ CHR ''T'' # T)"
    by (simp_all add: nth_append)
  then show ?thesis using assms by (simp add: new_Date_string_def)
qed

subsection \<open>Time values of four-digit years\<close>


lemma DayFromYear_range:
  assumes "0 \<le> y" "y \<le> 10000"
  shows "- 720000 \<le> DayFromYear y" and "DayFromYear y \<le> 2940000"
  using DayFromYear_estimate [of y] assms by simp_all

lemma MakeDay_range:
  assumes "parse_ymd D = Some (y, m, d)"
  shows "- 720000 \<le> MakeDay y (m - 1) d" and "MakeDay y (m - 1) d \<le> 2941000"
proof -
  note p = parse_ymd_Some [OF assms]
  have mn: "0 \<le> m - 1" "m - 1 < 12" using p by simp_all
  have d: "1 \<le> d" "d \<le> DaysInMonth y (m - 1 + 1)" using p by simp_all
  have md: "MakeDay y (m - 1) d = DayFromYear y + (DaysBeforeMonth y (m - 1) + d - 1)"
    using mn by (simp add: MakeDay_def Let_def)
  from DaysBeforeMonth_bounds [OF mn d] DaysInYear_ge(2) [of y] DayFromYear_range [of y] p
  show "- 720000 \<le> MakeDay y (m - 1) d" and "MakeDay y (m - 1) d \<le> 2941000"
    unfolding md by simp_all
qed

lemma TimeClip_near:
  assumes "- 721000 \<le> n" "n \<le> 2942000" "0 \<le> tm" "tm < msPerDay" "\<bar>tz\<bar> \<le> msPerDay"
  shows "TimeClip (MakeDate n tm - tz) = Some (MakeDate n tm - tz)"
proof -
  have "- 721000 * 86400000 \<le> n * 86400000" "n * 86400000 \<le> 2942000 * 86400000"
    using assms(1,2) by simp_all
  then have "\<bar>MakeDate n tm - tz\<bar> \<le> 8640000000000000"
    using assms(3,4,5) by (simp add: MakeDate_def msPerDay_def abs_le_iff)
  then show ?thesis by (simp add: TimeClip_def)
qed

text \<open>
  The local midnight and the last millisecond of a date that parses, and what the
  getters read from a time value of that day.
\<close>

lemma startOfDayISO_valid:
  assumes "parse_ymd D = Some (y, m, d)" "\<bar>tz\<bar> \<le> msPerDay"
  shows "startOfDayISO tz D = Inr (MakeDate (MakeDay y (m - 1) d) 0 - tz)"
proof -
  have "new_Date_string tz (D @ ''T00:00:00'')
          = TimeClip (MakeDate (MakeDay y (m - 1) d) 0 - tz)"
    using new_Date_string_valid [OF assms(1) parse_hms_literals(1)] by simp
  also have "\<dots> = Some (MakeDate (MakeDay y (m - 1) d) 0 - tz)"
    using MakeDay_range [OF assms(1)] assms(2)
    by (intro TimeClip_near) (simp_all add: msPerDay_def)
  finally show ?thesis by (simp add: startOfDayISO_def toISOString_def)
qed

lemma end_of_day_valid:
  assumes "parse_ymd D = Some (y, m, d)" "\<bar>tz\<bar> \<le> msPerDay"
  shows "new_Date_string tz (D @ ''T23:59:59.999'')
           = Some (MakeDate (MakeDay y (m - 1) d) 86399999 - tz)"
proof -
  have "new_Date_string tz (D @ ''T23:59:59.999'')
          = TimeClip (MakeDate (MakeDay y (m - 1) d) 86399999 - tz)"
    using new_Date_string_valid [OF assms(1) parse_hms_literals(2)] by simp
  also have "\<dots> = Some (MakeDate (MakeDay y (m - 1) d) 86399999 - tz)"
    using MakeDay_range [OF assms(1)] assms(2)
    by (intro TimeClip_near) (simp_all add: msPerDay_def)
  finally show ?thesis .
qed

lemma endOfDayISO_valid:
  assumes "parse_ymd D = Some (y, m, d)" "\<bar>tz\<bar> \<le> msPerDay"
  shows "endOfDayISO tz D = Inr (MakeDate (MakeDay y (m - 1) d) 86399999 - tz)"
  using end_of_day_valid [OF assms] by (simp add: endOfDayISO_def toISOString_def)

lemma fields_of_valid:
  assumes "parse_ymd D = Some (y, m, d)" "0 \<le> tm" "tm < msPerDay"
  shows "YearFromTime (MakeDate (MakeDay y (m - 1) d) tm) = y"
    and "MonthFromTime (MakeDate (MakeDay y (m - 1) d) tm) = m - 1"
    and "DateFromTime (MakeDate (MakeDay y (m - 1) d) tm) = d"
proof -
  note p = parse_ymd_Some [OF assms(1)]
  have mn: "0 \<le> m - 1" "m - 1 < 12" using p by simp_all
  have d: "1 \<le> d" "d \<le> DaysInMonth y (m - 1 + 1)" using p by simp_all
  show "YearFromTime (MakeDate (MakeDay y (m - 1) d) tm) = y"
    and "MonthFromTime (MakeDate (MakeDay y (m - 1) d) tm) = m - 1"
    and "DateFromTime (MakeDate (MakeDay y (m - 1) d) tm) = d"
    using civil_round_trip [OF mn d assms(2,3)] by simp_all
qed

subsection \<open>The window of the list\<close>

lemma listRange_one_day:
  assumes "parse_ymd D = Some (y, m, d)" "\<bar>tz\<bar> \<le> msPerDay"
  shows "range_of (startOfDayISO tz D) (endOfDayISO tz D)
           = Inr \<lparr>startISO = MakeDate (MakeDay y (m - 1) d) 0 - tz,
                  endISO = MakeDate (MakeDay y (m - 1) d) 86399999 - tz\<rparr>"
  by (simp add: range_of_def startOfDayISO_valid [OF assms] endOfDayISO_valid [OF assms])

text \<open>
  Claim C6. Mode \<open>TODAY\<close> with anchor \<open>D\<close> and mode \<open>RANGE\<close> with \<open>rangeFrom\<close> and
  \<open>rangeTo\<close> equal to \<open>D\<close> resolve to the same window, whatever the other fields of the
  view are; for a date \<open>D\<close> that parses, it is the window from the local midnight of
  \<open>D\<close> to its last millisecond.
\<close>

theorem today_is_single_day_range:
  "listRange tz (s\<lparr>filterMode := TODAY, selectedDate := D\<rparr>)
     = listRange tz (t\<lparr>filterMode := RANGE, rangeFrom := D, rangeTo := D\<rparr>) \<and>
   (parse_ymd D = Some (y, m, d) \<and> \<bar>tz\<bar> \<le> msPerDay \<longrightarrow>
      listRange tz (s\<lparr>filterMode := TODAY, selectedDate := D\<rparr>)
        = Inr \<lparr>startISO = MakeDate (MakeDay y (m - 1) d) 0 - tz,
               endISO = MakeDate (MakeDay y (m - 1) d) 86399999 - tz\<rparr>)"
proof (intro conjI impI)
  show "listRange tz (s\<lparr>filterMode := TODAY, selectedDate := D\<rparr>)
     = listRange tz (t\<lparr>filterMode := RANGE, rangeFrom := D, rangeTo := D\<rparr>)"
    by (simp add: listRange_def startOfDayISO_def endOfDayISO_def Let_def)
  show "listRange tz (s\<lparr>filterMode := TODAY, selectedDate := D\<rparr>)
        = Inr \<lparr>startISO = MakeDate (MakeDay y (m - 1) d) 0 - tz,
               endISO = MakeDate (MakeDay y (m - 1) d) 86399999 - tz\<rparr>"
    if "parse_ymd D = Some (y, m, d) \<and> \<bar>tz\<bar> \<le> msPerDay"
    using that listRange_one_day [of D y m d tz] by (simp add: listRange_def)
qed

text \<open>
  The theorem for 10 January 2024, seven hours ahead of UTC: both windows run from
  9 January 17:00:00.000 UTC to 10 January 16:59:59.999 UTC.
\<close>

theorem today_is_single_day_range_witness:
  "parse_ymd ''2024-01-10'' = Some (2024, 1, 10) \<and> \<bar>25200000\<bar> \<le> msPerDay \<and>
   listRange 25200000 (view0\<lparr>filterMode := TODAY, selectedDate := ''2024-01-10''\<rparr>)
     = Inr \<lparr>startISO = 1704819600000, endISO = 1704905999999\<rparr> \<and>
   listRange 25200000
       (view0\<lparr>filterMode := RANGE, rangeFrom := ''2024-01-10'', rangeTo := ''2024-01-10''\<rparr>)
     = Inr \<lparr>startISO = 1704819600000, endISO = 1704905999999\<rparr>"
proof -
  have h: "parse_ymd ''2024-01-10'' = Some (2024, 1, 10) \<and> \<bar>25200000\<bar> \<le> msPerDay"
    by code_simp
  have n: "MakeDay 2024 0 10 = 19732"
    by code_simp
  note T = today_is_single_day_range [where tz = 25200000 and s = view0
      and D = "''2024-01-10''" and t = view0 and y = 2024 and m = 1 and d = 10]
  have c: "listRange 25200000 (view0\<lparr>filterMode := TODAY, selectedDate := ''2024-01-10''\<rparr>)
           = listRange 25200000
               (view0\<lparr>filterMode := RANGE, rangeFrom := ''2024-01-10'',
                      rangeTo := ''2024-01-10''\<rparr>)"
    using T by (rule conjunct1)
  have v: "listRange 25200000 (view0\<lparr>filterMode := TODAY, selectedDate := ''2024-01-10''\<rparr>)
           = Inr \<lparr>startISO = 1704819600000, endISO = 1704905999999\<rparr>"
    using conjunct2 [OF T] h by (simp add: n MakeDate_def msPerDay_def)
  show ?thesis
    using h v by (simp add: c [symmetric])
qed





subsection \<open>The window of the month\<close>

lemma MakeDay_next_month:
  assumes "1 \<le> m" "m \<le> 12"
  shows "MakeDay y m 1 = MakeDay y (m - 1) 1 + DaysInMonth y m"
proof -
  have c: "m = 1 \<or> m = 2 \<or> m = 3 \<or> m = 4 \<or> m = 5 \<or> m = 6 \<or> m = 7 \<or> m = 8 \<or> m = 9 \<or>
           m = 10 \<or> m = 11 \<or> m = 12"
    using assms by arith
  have y1: "DayFromYear (y + 1) = DayFromYear y + DaysInYear y" by (rule DayFromYear_Suc)
  from c DaysInYear_ge [of y] show ?thesis
    by (elim disjE)
      (simp_all add: MakeDay_def DaysBeforeMonth_def DaysInMonth_def Let_def y1
        split: if_splits)
qed

text \<open>
  \<open>monthRange\<close> for an anchor that parses. The year handed to \<open>new Date(year, month, 1)\<close>
  is the year of the anchor, which that constructor reads as \<open>1900 + y\<close> when it is
  below 100.
\<close>

lemma monthRange_value:
  assumes p: "parse_ymd (selectedDate s) = Some (y, m, d)" and tz: "\<bar>tz\<bar> \<le> msPerDay"
    and yr: "yr = (if y \<le> 99 then 1900 + y else y)"
  shows "monthRange tz s =
           Inr \<lparr>startISO = MakeDate (MakeDay yr (m - 1) 1) 0 - tz,
                endISO = MakeDate (MakeDay yr (m - 1) 1 + DaysInMonth yr m) 0 - tz\<rparr>"
proof -
  note q = parse_ymd_Some [OF p]
  let ?N = "MakeDay y (m - 1) d"
  have t0: "(0::int) \<le> 0" "0 < msPerDay" by (simp_all add: msPerDay_def)
  have e: "new_Date_string tz (selectedDate s @ ''T00:00:00'') = Some (MakeDate ?N 0 - tz)"
    using startOfDayISO_valid [OF p tz]
    by (simp add: startOfDayISO_def toISOString_def split: option.splits)
  have gy: "getFullYear tz (Some (MakeDate ?N 0 - tz)) = Some y"
    and gm: "getMonth tz (Some (MakeDate ?N 0 - tz)) = Some (m - 1)"
    by (simp_all add: getFullYear_def getMonth_def fields_of_valid(1,2) [OF p t0])
  have yr': "(if 0 \<le> y \<and> y \<le> 99 then 1900 + y else y) = yr"
    using q(2) yr by simp
  have yb: "0 \<le> yr" "yr \<le> 9999" using q(2,3) yr by (simp_all split: if_splits)
  have mn: "0 \<le> m - 1" "m - 1 < 12" using q by simp_all
  have d1: "(1::int) \<le> 1" "1 \<le> DaysInMonth yr (m - 1 + 1)" by (simp_all add: DaysInMonth_def)
  have md: "MakeDay yr (m - 1) 1 = DayFromYear yr + (DaysBeforeMonth yr (m - 1) + 1 - 1)"
    using mn by (simp add: MakeDay_def Let_def)
  have r1: "- 720000 \<le> MakeDay yr (m - 1) 1" "MakeDay yr (m - 1) 1 \<le> 2941000"
    using DaysBeforeMonth_bounds [OF mn d1] DaysInYear_ge(2) [of yr] DayFromYear_range [of yr] yb
    unfolding md by simp_all
  have dm: "28 \<le> DaysInMonth yr m" "DaysInMonth yr m \<le> 31" by (simp_all add: DaysInMonth_def)
  have c1: "TimeClip (MakeDate (MakeDay yr (m - 1) 1) 0 - tz)
              = Some (MakeDate (MakeDay yr (m - 1) 1) 0 - tz)"
    using r1 tz by (intro TimeClip_near) (simp_all add: msPerDay_def)
  have c2: "TimeClip (MakeDate (MakeDay yr (m - 1) 1 + DaysInMonth yr m) 0 - tz)
              = Some (MakeDate (MakeDay yr (m - 1) 1 + DaysInMonth yr m) 0 - tz)"
    using r1 dm tz by (intro TimeClip_near) (simp_all add: msPerDay_def)
  have nx: "MakeDay yr (m - 1 + 1) 1 = MakeDay yr (m - 1) 1 + DaysInMonth yr m"
    using MakeDay_next_month [of m yr] q by simp
  have s1: "new_Date_fields tz (Some y) (Some (m - 1)) 1 0 0 0 0
              = Some (MakeDate (MakeDay yr (m - 1) 1) 0 - tz)"
    by (simp add: new_Date_fields_def Let_def yr' MakeTime_def c1)
  have s2: "new_Date_fields tz (Some y) (Some (m - 1 + 1)) 1 0 0 0 0
              = Some (MakeDate (MakeDay yr (m - 1) 1 + DaysInMonth yr m) 0 - tz)"
    by (simp only: new_Date_fields_def Let_def yr' MakeTime_def nx prod.case option.case)
      (simp add: c2)
  show ?thesis
    unfolding monthRange_def Let_def e gy gm
    by (simp add: s1 s2 [simplified] range_of_def toISOString_def)
qed

text \<open>
  For an anchor from the year 100 on, the window of the month runs from the first instant
  of the month of the anchor to the first instant of the next month, and it is a function
  of the anchor alone.
\<close>

lemma monthRange_window:
  assumes "parse_ymd (selectedDate s) = Some (y, m, d)" "\<bar>tz\<bar> \<le> msPerDay" "100 \<le> y"
  shows "monthRange tz s =
           Inr \<lparr>startISO = MakeDate (MakeDay y (m - 1) 1) 0 - tz,
                endISO = MakeDate (MakeDay y (m - 1) 1 + DaysInMonth y m) 0 - tz\<rparr>"
  using monthRange_value [OF assms(1,2), of y] assms(3) by simp

lemma monthRange_anchor_only:
  "selectedDate s = selectedDate t \<Longrightarrow> monthRange tz s = monthRange tz t"
  by (simp add: monthRange_def)

text \<open>
  Claim C5 fails for anchors in the years 0 to 99. The anchor 10 March of the year 50,
  seven hours ahead of UTC: \<open>monthRange\<close> is the window from 1 March 1950 to 1 April
  1950, and the anchor day, which starts 1900 years earlier, is not in it.
\<close>

theorem monthRange_year_50:
  "parse_ymd ''0050-03-10'' = Some (50, 3, 10) \<and>
   monthRange 25200000 (view0\<lparr>selectedDate := ''0050-03-10''\<rparr>)
     = Inr \<lparr>startISO = - 626079600000, endISO = - 623401200000\<rparr> \<and>
   startOfDayISO 25200000 ''1950-03-01'' = Inr (- 626079600000) \<and>
   startOfDayISO 25200000 ''1950-04-01'' = Inr (- 623401200000) \<and>
   startOfDayISO 25200000 ''0050-03-01'' = Inr (- 60584223600000) \<and>
   startOfDayISO 25200000 ''0050-03-10'' = Inr (- 60583446000000)"
  by code_simp

subsection \<open>A refresh with a failing query\<close>








subsection \<open>Export\<close>

text \<open>
  Claim C3 does not hold: \<open>onExportXLSX\<close> has no test of the list. On the view of
  10 January 2024 before any entry is loaded, it writes the workbook
  \<open>cashbook_2024-01-10.xlsx\<close> with its two sheets; the sheet \<open>Cashbook\<close> has no row and
  the sheet \<open>Summary\<close> has its four.
\<close>

theorem export_of_empty_list_counterexample:
  "rows viewA = [] \<and>
   filename (onExportXLSX env0 viewA) = ''cashbook_2024-01-10.xlsx'' \<and>
   map name_sheet (sheets (onExportXLSX env0 viewA)) = [''Cashbook'', ''Summary''] \<and>
   rows_sheet (sheets (onExportXLSX env0 viewA) ! 0) = [] \<and>
   length (rows_sheet (sheets (onExportXLSX env0 viewA) ! 1)) = 4"
  by code_simp

text \<open>
  Claim C3 as amended. The guard is the export button alone: it is disabled while the
  displayed list is empty or a refresh is in flight, and a click then produces no file;
  otherwise a click produces the workbook of \<open>onExportXLSX\<close>. \<open>onExportXLSX\<close> itself
  does not look at the length of the list: it always produces the two sheets, with one
  row of the sheet \<open>Cashbook\<close> per displayed entry, hence none for an empty list.
\<close>

theorem export_guard_is_the_button:
  "(loading s \<or> rows s = [] \<longrightarrow> onClickExport e s = None) \<and>
   (\<not> loading s \<and> rows s \<noteq> [] \<longrightarrow> onClickExport e s = Some (onExportXLSX e s)) \<and>
   map name_sheet (sheets (onExportXLSX e s)) = [''Cashbook'', ''Summary''] \<and>
   length (rows_sheet (sheets (onExportXLSX e s) ! 0)) = length (rows s) \<and>
   (rows s = [] \<longrightarrow> rows_sheet (sheets (onExportXLSX e s) ! 0) = [])"
  by (simp add: onClickExport_def exportDisabled_def onExportXLSX_def Let_def)

text \<open>
  The theorem on the sample store: no file for the empty view, none for the loaded view
  while it is loading, and the workbook \<open>cashbook_2024-01-10.xlsx\<close> for the loaded view.
\<close>

theorem export_guard_is_the_button_witness:
  "(loading viewA \<or> rows viewA = []) \<and> onClickExport env0 viewA = None \<and>
   (loading (viewA_loaded\<lparr>loading := True\<rparr>) \<or> rows (viewA_loaded\<lparr>loading := True\<rparr>) = []) \<and>
   onClickExport env0 (viewA_loaded\<lparr>loading := True\<rparr>) = None \<and>
   (\<not> loading viewA_loaded \<and> rows viewA_loaded \<noteq> []) \<and>
   map_option filename (onClickExport env0 viewA_loaded) = Some ''cashbook_2024-01-10.xlsx'' \<and>
   rows viewA = [] \<and> rows_sheet (sheets (onExportXLSX env0 viewA) ! 0) = []"
proof -
  have h1: "loading viewA \<or> rows viewA = []"
    and h2: "loading (viewA_loaded\<lparr>loading := True\<rparr>) \<or> rows (viewA_loaded\<lparr>loading := True\<rparr>) = []"
    and h3: "\<not> loading viewA_loaded \<and> rows viewA_loaded \<noteq> []"
    and h4: "rows viewA = []"
    by code_simp+
  have f: "filename (onExportXLSX env0 viewA_loaded) = ''cashbook_2024-01-10.xlsx''"
    by code_simp
  note T1 = export_guard_is_the_button [where e = env0 and s = viewA]
  note T2 = export_guard_is_the_button [where e = env0 and s = "viewA_loaded\<lparr>loading := True\<rparr>"]
  note T3 = export_guard_is_the_button [where e = env0 and s = viewA_loaded]
  have c1: "onClickExport env0 viewA = None"
    using T1 [THEN conjunct1] h1 by (rule mp)
  have c2: "onClickExport env0 (viewA_loaded\<lparr>loading := True\<rparr>) = None"
    using T2 [THEN conjunct1] h2 by (rule mp)
  have c3: "onClickExport env0 viewA_loaded = Some (onExportXLSX env0 viewA_loaded)"
    using T3 [THEN conjunct2, THEN conjunct1] h3 by (rule mp)
  have c4: "rows_sheet (sheets (onExportXLSX env0 viewA) ! 0) = []"
    using T1 [THEN conjunct2, THEN conjunct2, THEN conjunct2, THEN conjunct2] h4 by (rule mp)
  from h1 h2 h3 h4 c1 c2 c4 show ?thesis
    by (simp add: c3 f)
qed

subsection \<open>Submitting an expense\<close>

text \<open>
  The test \<open>!Number.isFinite(amount) || amount <= 0\<close> of \<open>submitExpense\<close> is the negation
  of "a finite number greater than 0".
\<close>

lemma invalid_amount_test: "(\<not> isFinite n \<or> le_zero n) = (\<not> finite_positive n)"
  by (cases n) auto

text \<open>
  Claim C8. With a property resolved (the submit button is disabled without one, and
  \<open>submitExpense\<close> returns at once), submitting an expense whose amount does not parse to
  a finite number greater than 0 shows the validation error and does nothing else: the
  state is the state before with that message, no call is made (no entry is inserted, no
  query is issued), and none of the dependencies of the refresh effect changes. The
  amount \<open>abc\<close> is such an amount.
\<close>

theorem invalid_amount_is_rejected:
  "\<not> finite_positive (Number_str ''abc'') \<and>
   (propertyId (closure r) = Some pid \<and> pid \<noteq> '''' \<and>
    \<not> finite_positive (Number_str (expAmount (closure r))) \<longrightarrow>
    submitExpense e r s = (s\<lparr>msgType := error, msg := ''So tien chi khong hop le.''\<rparr>, []) \<and>
    refresh_deps (fst (submitExpense e r s)) = refresh_deps s)"
proof (intro conjI impI)
  show "\<not> finite_positive (Number_str ''abc'')"
    by code_simp
next
  assume h: "propertyId (closure r) = Some pid \<and> pid \<noteq> '''' \<and>
    \<not> finite_positive (Number_str (expAmount (closure r)))"
  then have t: "\<not> isFinite (Number_str (expAmount (closure r))) \<or>
      le_zero (Number_str (expAmount (closure r)))"
    using invalid_amount_test [of "Number_str (expAmount (closure r))"] by blast
  from h t show
    e: "submitExpense e r s = (s\<lparr>msgType := error, msg := ''So tien chi khong hop le.''\<rparr>, [])"
    by (auto simp add: submitExpense_def Let_def setToast_def)
  show "refresh_deps (fst (submitExpense e r s)) = refresh_deps s"
    by (simp add: e refresh_deps_def)
qed

text \<open>The theorem on the sample store, for the loaded view with the amount \<open>abc\<close>.\<close>

theorem invalid_amount_is_rejected_witness:
  "propertyId (closure renderedBad) = Some ''p1'' \<and> ''p1'' \<noteq> '''' \<and>
   expAmount (closure renderedBad) = ''abc'' \<and>
   \<not> finite_positive (Number_str (expAmount (closure renderedBad))) \<and>
   submitExpense env0 renderedBad viewBad
     = (viewBad\<lparr>msgType := error, msg := ''So tien chi khong hop le.''\<rparr>, [])"
proof -
  have h: "propertyId (closure renderedBad) = Some ''p1'' \<and> ''p1'' \<noteq> '''' \<and>
      \<not> finite_positive (Number_str (expAmount (closure renderedBad)))"
    and a: "expAmount (closure renderedBad) = ''abc''"
    by code_simp+
  from invalid_amount_is_rejected [where r = renderedBad and pid = "''p1''" and e = env0
      and s = viewBad, THEN conjunct2, THEN mp, OF h] h a
  show ?thesis by simp
qed

subsection \<open>An insert that returns no identifier\<close>









end
